theory Spec2Isabelle
  imports Complex_Main "HOL-Library.List_Lexorder" "HOL-Library.Char_ord"
begin

section \<open>The query layer of app.js\<close>

text \<open>
  The program is three Express route handlers, each running one SQLite query through
  \<^verbatim>\<open>db.all\<close> and answering either \<^verbatim>\<open>res.status(500).json({error: err.message})\<close> or
  \<^verbatim>\<open>res.json(rows)\<close>. A handler is modelled as a function of the store, the clock
  (what SQLite's \<^verbatim>\<open>'now'\<close> denotes) and \<^verbatim>\<open>req.query\<close>, returning a sum: \<open>Inl\<close> the error,
  \<open>Inr\<close> the rows of the JSON answer.

  Representation choices, fixed here once:
  \<^item> a SQLite REAL is a mathematical \<open>real\<close> and the arithmetic of the distance expression
    is exact: IEEE-754 rounding is not part of the model, a distance below is the value
    of the exact expression, and no property that rounding decides is stated of it;
  \<^item> SQLite's \<^verbatim>\<open>SUM\<close> over REAL values is a floating-point sum whose algorithm depends on
    the version of SQLite; it is a parameter \<open>sqlite_sum\<close> of the revenue query;
  \<^item> a timestamp is the number of seconds since 1970-01-01 00:00:00 UTC that the
    canonical text \<^verbatim>\<open>YYYY-MM-DD HH:MM:SS\<close> denotes (the format of \<^verbatim>\<open>CURRENT_TIMESTAMP\<close> and
    of \<^verbatim>\<open>datetime()\<close>); comparing two such texts is comparing these numbers;
  \<^item> a value of \<^verbatim>\<open>req.query\<close> is absent or a string; a table is its rows in rowid order,
    and its columns hold values of their type, never NULL;
  \<^item> a query that SQLite cannot run (table or column missing, I/O error) is a table
    that is \<open>Inl\<close> the error message. The bootstrap creates \<^verbatim>\<open>opportunities\<close> without the
    columns \<^verbatim>\<open>origin_lat\<close> and \<^verbatim>\<open>origin_lng\<close> and creates no \<^verbatim>\<open>shipments\<close> table, so these
    queries run only on a database that already has them.
\<close>

subsection \<open>SQLite values and bound parameters\<close>

datatype sqlval = Null | Num real | Text string

text \<open>
  How node-sqlite3 binds a JavaScript value: \<^verbatim>\<open>undefined\<close> leaves the parameter unbound,
  which SQLite reads as NULL; a string is bound as TEXT.
\<close>

definition bind_param :: "string option \<Rightarrow> sqlval" where
  "bind_param v = (case v of None \<Rightarrow> Null | Some s \<Rightarrow> Text s)"

definition is_space :: "char \<Rightarrow> bool" where
  "is_space c = (c \<in> set [CHR '' '', CHR 0x09, CHR 0x0A, CHR 0x0B, CHR 0x0C, CHR 0x0D])"

definition is_digit :: "char \<Rightarrow> bool" where
  "is_digit c = (c \<in> set ''0123456789'')"

definition digit_value :: "char \<Rightarrow> nat" where
  "digit_value c = of_char c - 48"

definition digits_value :: "string \<Rightarrow> nat" where
  "digits_value ds = foldl (\<lambda>a c. 10 * a + digit_value c) 0 ds"

definition scale10 :: "real \<Rightarrow> int \<Rightarrow> real" where
  "scale10 x e = (if 0 \<le> e then x * 10 ^ nat e else x / 10 ^ nat (- e))"

definition take_sign :: "string \<Rightarrow> bool \<times> string" where
  "take_sign s =
     (case s of
        [] \<Rightarrow> (False, [])
      | c # r \<Rightarrow> if c = CHR ''-'' then (True, r)
                else if c = CHR ''+'' then (False, r) else (False, s))"

definition take_fraction :: "string \<Rightarrow> string \<times> string" where
  "take_fraction s =
     (case s of
        [] \<Rightarrow> ([], [])
      | c # r \<Rightarrow> if c = CHR ''.'' then (takeWhile is_digit r, dropWhile is_digit r)
                else ([], s))"

definition take_exponent :: "string \<Rightarrow> (int \<times> string) option" where
  "take_exponent s =
     (case s of
        [] \<Rightarrow> Some (0, [])
      | c # r \<Rightarrow>
          if c = CHR ''e'' \<or> c = CHR ''E'' then
            (case take_sign r of
               (eneg, r2) \<Rightarrow>
                 if takeWhile is_digit r2 = [] then None
                 else Some ((if eneg then - 1 else 1) * int (digits_value (takeWhile is_digit r2)),
                            dropWhile is_digit r2))
          else Some (0, s))"

text \<open>
  The number a TEXT value denotes for SQLite's numeric conversion, \<open>None\<close> when the text
  is not entirely a number: optional white space, an optional sign, digits with an
  optional fraction (at least one digit in all), an optional exponent with at least one
  digit, optional white space.
\<close>

definition numeric_text :: "string \<Rightarrow> real option" where
  "numeric_text s =
     (case take_sign (dropWhile is_space s) of
        (neg, s2) \<Rightarrow>
          (case take_fraction (dropWhile is_digit s2) of
             (fp, s4) \<Rightarrow>
               (case take_exponent s4 of
                  None \<Rightarrow> None
                | Some (ex, s5) \<Rightarrow>
                    if takeWhile is_digit s2 = [] \<and> fp = [] then None
                    else if dropWhile is_space s5 \<noteq> [] then None
                    else Some ((if neg then - 1 else 1) *
                               scale10 (real (digits_value (takeWhile is_digit s2 @ fp)))
                                       (ex - int (length fp))))))"

text \<open>
  The argument of a SQLite math function: NULL, or a text that is not a number, makes
  the function return NULL (\<open>None\<close>).
\<close>

definition numeric_value :: "sqlval \<Rightarrow> real option" where
  "numeric_value v = (case v of Null \<Rightarrow> None | Num x \<Rightarrow> Some x | Text s \<Rightarrow> numeric_text s)"

definition radians :: "sqlval \<Rightarrow> real option" where
  "radians v = map_option (\<lambda>x. x * (pi / 180)) (numeric_value v)"

definition sql_cos :: "real option \<Rightarrow> real option" where
  "sql_cos a = map_option cos a"

definition sql_sin :: "real option \<Rightarrow> real option" where
  "sql_sin a = map_option sin a"

text \<open>\<^verbatim>\<open>acos\<close> outside \<open>[-1, 1]\<close> is NaN, which SQLite stores as NULL.\<close>

definition sql_acos :: "real option \<Rightarrow> real option" where
  "sql_acos a =
     (case a of
        None \<Rightarrow> None
      | Some x \<Rightarrow> if - 1 \<le> x \<and> x \<le> 1 then Some (arccos x) else None)"

definition sql_mul :: "real option \<Rightarrow> real option \<Rightarrow> real option" where
  "sql_mul a b = (case a of None \<Rightarrow> None | Some x \<Rightarrow> map_option (\<lambda>y. x * y) b)"

definition sql_add :: "real option \<Rightarrow> real option \<Rightarrow> real option" where
  "sql_add a b = (case a of None \<Rightarrow> None | Some x \<Rightarrow> map_option (\<lambda>y. x + y) b)"

definition sql_sub :: "real option \<Rightarrow> real option \<Rightarrow> real option" where
  "sql_sub a b = (case a of None \<Rightarrow> None | Some x \<Rightarrow> map_option (\<lambda>y. x - y) b)"

text \<open>
  \<^verbatim>\<open>distance < ?\<close>: neither side has a column affinity, so the values are compared as
  they are, and a number is less than any text. \<open>None\<close> is SQL's NULL truth value.
\<close>

definition sql_lt :: "real option \<Rightarrow> sqlval \<Rightarrow> bool option" where
  "sql_lt d m =
     (case d of
        None \<Rightarrow> None
      | Some x \<Rightarrow> (case m of Null \<Rightarrow> None | Num y \<Rightarrow> Some (x < y) | Text t \<Rightarrow> Some True))"

subsection \<open>The store\<close>

record truck =
  t_id :: int
  t_license_plate :: string
  current_lat :: real
  current_lng :: real
  last_updated :: int

record opportunity =
  o_id :: int
  o_origin :: string
  o_destination :: string
  o_payload :: string
  o_revenue :: real
  expiry :: int
  origin_lat :: real
  origin_lng :: real

record shipment =
  s_timestamp :: int
  s_revenue :: real

record store =
  trucks :: "string + truck list"
  opportunities :: "string + opportunity list"
  shipments :: "string + shipment list"

datatype error = InvalidArgument | StoreUnavailable string

type_synonym query = "string \<Rightarrow> string option"

subsection \<open>GET /api/opportunities\<close>

text \<open>
  The expression selected as \<^verbatim>\<open>distance\<close>; the four placeholders of the statement are
  bound to \<^verbatim>\<open>[lat, lng, lat, max_distance]\<close>, so \<open>p1\<close> and \<open>p3\<close> are both the latitude.
\<close>

definition distance :: "sqlval \<Rightarrow> sqlval \<Rightarrow> sqlval \<Rightarrow> opportunity \<Rightarrow> real option" where
  "distance p1 p2 p3 r =
     sql_mul (Some 6371)
       (sql_acos
          (sql_add
             (sql_mul
                (sql_mul (sql_cos (radians p1)) (sql_cos (radians (Num (origin_lat r)))))
                (sql_cos (sql_sub (radians (Num (origin_lng r))) (radians p2))))
             (sql_mul (sql_sin (radians p3)) (sql_sin (radians (Num (origin_lat r)))))))"

record opportunity_row =
  r_id :: int
  r_origin :: string
  r_destination :: string
  r_payload :: string
  r_revenue :: real
  r_distance :: "real option"

definition select_opportunity :: "sqlval \<Rightarrow> sqlval \<Rightarrow> sqlval \<Rightarrow> opportunity \<Rightarrow> opportunity_row" where
  "select_opportunity p1 p2 p3 r =
     \<lparr>r_id = o_id r, r_origin = o_origin r, r_destination = o_destination r,
      r_payload = o_payload r, r_revenue = o_revenue r, r_distance = distance p1 p2 p3 r\<rparr>"

text \<open>The WHERE clause keeps a row when both conditions are true (not NULL).\<close>

definition where_opportunity :: "sqlval \<Rightarrow> sqlval \<Rightarrow> sqlval \<Rightarrow> sqlval \<Rightarrow> int \<Rightarrow> opportunity \<Rightarrow> bool" where
  "where_opportunity p1 p2 p3 p4 now r =
     (sql_lt (distance p1 p2 p3 r) p4 = Some True \<and> now < expiry r)"

text \<open>
  \<^verbatim>\<open>ORDER BY revenue DESC LIMIT 50\<close>: rows of equal revenue stay in the order of the scan
  (SQLite sorts a limited query on the key followed by a sequence number).
\<close>

definition ranked_opportunities ::
  "sqlval \<Rightarrow> sqlval \<Rightarrow> sqlval \<Rightarrow> sqlval \<Rightarrow> int \<Rightarrow> opportunity list \<Rightarrow> opportunity list" where
  "ranked_opportunities p1 p2 p3 p4 now rows =
     sort_key (\<lambda>r. - o_revenue r) (filter (where_opportunity p1 p2 p3 p4 now) rows)"

definition opportunities_sql ::
  "sqlval \<Rightarrow> sqlval \<Rightarrow> sqlval \<Rightarrow> sqlval \<Rightarrow> int \<Rightarrow> opportunity list \<Rightarrow> opportunity_row list" where
  "opportunities_sql p1 p2 p3 p4 now rows =
     map (select_opportunity p1 p2 p3) (take 50 (ranked_opportunities p1 p2 p3 p4 now rows))"

text \<open>
  The handler: \<^verbatim>\<open>const { max_distance = 100 } = req.query\<close> gives the number 100 only when
  the parameter is absent, and the caller's string otherwise.
\<close>

definition max_distance_param :: "query \<Rightarrow> sqlval" where
  "max_distance_param q = (case q ''max_distance'' of None \<Rightarrow> Num 100 | Some s \<Rightarrow> Text s)"

definition api_opportunities :: "store \<Rightarrow> int \<Rightarrow> query \<Rightarrow> error + opportunity_row list" where
  "api_opportunities db now q =
     (case opportunities db of
        Inl msg \<Rightarrow> Inl (StoreUnavailable msg)
      | Inr rows \<Rightarrow>
          Inr (opportunities_sql (bind_param (q ''lat'')) (bind_param (q ''lng''))
                 (bind_param (q ''lat'')) (max_distance_param q) now rows))"

text \<open>The clamp of the specification's formula, which the query does not have.\<close>

definition clamp :: "real \<Rightarrow> real \<Rightarrow> real \<Rightarrow> real" where
  "clamp x lo hi = max lo (min hi x)"

text \<open>A text as a C string: what precedes its first NUL.\<close>

definition c_string :: "string \<Rightarrow> string" where
  "c_string s = takeWhile (\<lambda>c. c \<noteq> CHR 0x00) s"

text \<open>
  A coordinate of the request that is missing or is not a number. Versions of SQLite
  differ on a text with a NUL in it (read whole, or as a C string), so such a text counts
  as not a number only when it is none under both readings.
\<close>

definition missing_or_non_numeric :: "string option \<Rightarrow> bool" where
  "missing_or_non_numeric v =
     (case v of
        None \<Rightarrow> True
      | Some s \<Rightarrow> numeric_text s = None \<and> numeric_text (c_string s) = None)"

subsection \<open>GET /api/gps/trucks\<close>

record truck_row =
  tr_id :: int
  tr_license_plate :: string
  tr_lat :: real
  tr_lng :: real
  tr_timestamp :: int

definition select_truck :: "truck \<Rightarrow> truck_row" where
  "select_truck r =
     \<lparr>tr_id = t_id r, tr_license_plate = t_license_plate r, tr_lat = current_lat r,
      tr_lng = current_lng r, tr_timestamp = last_updated r\<rparr>"

text \<open>\<^verbatim>\<open>datetime('now', '-5 minutes')\<close> is 300 seconds before the clock.\<close>

definition trucks_sql :: "int \<Rightarrow> truck list \<Rightarrow> truck_row list" where
  "trucks_sql now rows =
     map select_truck
       (sort_key (\<lambda>r. - last_updated r) (filter (\<lambda>r. now - 300 < last_updated r) rows))"

text \<open>The handler never reads \<^verbatim>\<open>req\<close>.\<close>

definition api_gps_trucks :: "store \<Rightarrow> int \<Rightarrow> query \<Rightarrow> error + truck_row list" where
  "api_gps_trucks db now q =
     (case trucks db of
        Inl msg \<Rightarrow> Inl (StoreUnavailable msg)
      | Inr rows \<Rightarrow> Inr (trucks_sql now rows))"

subsection \<open>GET /api/analytics/revenue\<close>

text \<open>
  The calendar of SQLite's date functions (proleptic Gregorian), as day numbers
  counted from 1970-01-01. \<open>days_from_civil\<close> is linear in the day of the month, so a
  day past the end of a month runs into the next one, as in SQLite.
\<close>

definition days_from_civil :: "int \<Rightarrow> int \<Rightarrow> int \<Rightarrow> int" where
  "days_from_civil y m d =
     (let y1 = (if m \<le> 2 then y - 1 else y);
          era = y1 div 400;
          yoe = y1 - era * 400;
          doy = (153 * (if 2 < m then m - 3 else m + 9) + 2) div 5 + d - 1;
          doe = yoe * 365 + yoe div 4 - yoe div 100 + doy
      in era * 146097 + doe - 719468)"

definition civil_from_days :: "int \<Rightarrow> int \<times> int \<times> int" where
  "civil_from_days z =
     (let z1 = z + 719468;
          era = z1 div 146097;
          doe = z1 - era * 146097;
          yoe = (doe - doe div 1460 + doe div 36524 - doe div 146096) div 365;
          doy = doe - (365 * yoe + yoe div 4 - yoe div 100);
          mp = (5 * doy + 2) div 153;
          d = doy - (153 * mp + 2) div 5 + 1;
          m = (if mp < 10 then mp + 3 else mp - 9)
      in (yoe + era * 400 + (if m \<le> 2 then 1 else 0), m, d))"

definition digit_char :: "nat \<Rightarrow> char" where
  "digit_char n = ''0123456789'' ! (n mod 10)"

text \<open>\<^verbatim>\<open>strftime('%Y-%m', timestamp)\<close>, for the years 0000 to 9999 of the canonical text.\<close>

definition strftime_Ym :: "int \<Rightarrow> string" where
  "strftime_Ym ts =
     (case civil_from_days (ts div 86400) of
        (y, m, d) \<Rightarrow>
          [digit_char (nat y div 1000), digit_char (nat y div 100), digit_char (nat y div 10),
           digit_char (nat y), CHR ''-'', digit_char (nat m div 10), digit_char (nat m)])"

datatype time_unit = Second | Minute | Hour | Day | Month | Year

definition to_lower :: "char \<Rightarrow> char" where
  "to_lower c =
     (case map_of (zip ''ABCDEFGHIJKLMNOPQRSTUVWXYZ'' ''abcdefghijklmnopqrstuvwxyz'') c of
        None \<Rightarrow> c
      | Some l \<Rightarrow> l)"

text \<open>
  The unit of the modifier \<^verbatim>\<open>-1 ${period}\<close>, which SQLite reads as a C string: white space
  is skipped, the rest has 3 to 10 characters, one final \<^verbatim>\<open>s\<close> is dropped, and what remains
  is one of SQLite's six interval names, letter case ignored. There is no \<^verbatim>\<open>week\<close>.
\<close>

definition modifier_unit :: "string \<Rightarrow> time_unit option" where
  "modifier_unit period =
     (let z = dropWhile is_space (c_string period) in
      if 10 < length z \<or> length z < 3 then None
      else map_of [(''second'', Second), (''minute'', Minute), (''hour'', Hour),
                   (''day'', Day), (''month'', Month), (''year'', Year)]
             (map to_lower (if to_lower (last z) = CHR ''s'' then butlast z else z)))"

text \<open>
  \<^verbatim>\<open>datetime('now', `-1 ${period}`)\<close>: NULL (\<open>None\<close>) when SQLite does not know the modifier.
\<close>

definition datetime_now_minus_one :: "int \<Rightarrow> string \<Rightarrow> int option" where
  "datetime_now_minus_one now period =
     (case modifier_unit period of
        None \<Rightarrow> None
      | Some Second \<Rightarrow> Some (now - 1)
      | Some Minute \<Rightarrow> Some (now - 60)
      | Some Hour \<Rightarrow> Some (now - 3600)
      | Some Day \<Rightarrow> Some (now - 86400)
      | Some Month \<Rightarrow>
          (case civil_from_days (now div 86400) of
             (y, m, d) \<Rightarrow>
               Some ((if m = 1 then days_from_civil (y - 1) 12 d
                      else days_from_civil y (m - 1) d) * 86400 + now mod 86400))
      | Some Year \<Rightarrow>
          (case civil_from_days (now div 86400) of
             (y, m, d) \<Rightarrow> Some (days_from_civil (y - 1) m d * 86400 + now mod 86400)))"

record bucket =
  timeframe :: string
  total :: real
  b_shipments :: nat

text \<open>\<^verbatim>\<open>WHERE timestamp > datetime('now', ?)\<close>: a NULL bound keeps no row.\<close>

definition revenue_window :: "int \<Rightarrow> string \<Rightarrow> shipment list \<Rightarrow> shipment list" where
  "revenue_window now period rows =
     (case datetime_now_minus_one now period of
        None \<Rightarrow> []
      | Some c \<Rightarrow> filter (\<lambda>r. c < s_timestamp r) rows)"

definition revenue_group :: "shipment list \<Rightarrow> string \<Rightarrow> shipment list" where
  "revenue_group w l = filter (\<lambda>r. strftime_Ym (s_timestamp r) = l) w"

text \<open>
  \<^verbatim>\<open>SUM(revenue)\<close> and \<^verbatim>\<open>COUNT(*)\<close> of a group; \<open>sqlite_sum\<close> is given the revenues of the
  group in the order of the table.
\<close>

definition revenue_bucket :: "(real list \<Rightarrow> real) \<Rightarrow> shipment list \<Rightarrow> string \<Rightarrow> bucket" where
  "revenue_bucket sqlite_sum w l =
     \<lparr>timeframe = l, total = sqlite_sum (map s_revenue (revenue_group w l)),
      b_shipments = length (revenue_group w l)\<rparr>"

text \<open>\<^verbatim>\<open>GROUP BY timeframe ORDER BY timeframe\<close>: one row for each label, labels ascending.\<close>

definition revenue_sql ::
  "(real list \<Rightarrow> real) \<Rightarrow> int \<Rightarrow> string \<Rightarrow> shipment list \<Rightarrow> bucket list" where
  "revenue_sql sqlite_sum now period rows =
     map (revenue_bucket sqlite_sum (revenue_window now period rows))
       (sort (remdups (map (\<lambda>r. strftime_Ym (s_timestamp r)) (revenue_window now period rows))))"

definition period_param :: "query \<Rightarrow> string" where
  "period_param q = (case q ''period'' of None \<Rightarrow> ''month'' | Some s \<Rightarrow> s)"

definition api_analytics_revenue ::
  "(real list \<Rightarrow> real) \<Rightarrow> store \<Rightarrow> int \<Rightarrow> query \<Rightarrow> error + bucket list" where
  "api_analytics_revenue sqlite_sum db now q =
     (case shipments db of
        Inl msg \<Rightarrow> Inl (StoreUnavailable msg)
      | Inr rows \<Rightarrow> Inr (revenue_sql sqlite_sum now (period_param q) rows))"

section \<open>Properties\<close>

lemmas num_defs = numeric_text_def take_sign_def take_fraction_def take_exponent_def
  is_space_def is_digit_def digit_value_def digits_value_def scale10_def

lemmas sql_defs = radians_def sql_cos_def sql_sin_def sql_acos_def sql_mul_def sql_add_def
  sql_sub_def numeric_value_def

lemmas handler_defs = api_opportunities_def opportunities_sql_def ranked_opportunities_def
      where_opportunity_def select_opportunity_def bind_param_def max_distance_param_def
      sql_lt_def


subsection \<open>The distance expression\<close>

lemma distance_null:
  assumes "numeric_value p1 = None \<or> numeric_value p2 = None"
  shows "distance p1 p2 p3 r = None"
  using assms
  by (auto simp add: distance_def radians_def sql_cos_def sql_sin_def sql_acos_def
        sql_mul_def sql_add_def sql_sub_def split: option.splits)

lemma distance_nonneg:
  assumes "distance p1 p2 p3 r = Some d"
  shows "0 \<le> d"
proof -
  from assms obtain x where x: "- 1 \<le> x" "x \<le> 1" and d: "d = 6371 * arccos x"
    by (auto simp add: distance_def sql_acos_def sql_mul_def split: option.splits if_splits)
  from x have "0 \<le> arccos x" by (rule arccos_lbound)
  with d show ?thesis by simp
qed

text \<open>
  The query hands the argument to \<^verbatim>\<open>acos\<close> as it is. An argument above 1, which rounding
  can produce where the exact value is 1, gives NULL, where the formula with the clamp
  gives 0.
\<close>

lemma acos_above_one_null:
  assumes "1 < x"
  shows "sql_mul (Some 6371) (sql_acos (Some x)) = None \<and>
         6371 * arccos (clamp x (- 1) 1) = 0"
  using assms by (simp add: sql_mul_def sql_acos_def clamp_def)

subsection \<open>Filter, ranking and cap of the opportunities query\<close>

lemma ranked_set:
  "set (ranked_opportunities p1 p2 p3 p4 now rows) =
     {r \<in> set rows. where_opportunity p1 p2 p3 p4 now r}"
  by (simp add: ranked_opportunities_def)



lemma opportunities_sql_length: "length (opportunities_sql p1 p2 p3 p4 now rows) \<le> 50"
  by (simp add: opportunities_sql_def)

lemma opportunities_sql_sound:
  assumes "x \<in> set (opportunities_sql p1 p2 p3 p4 now rows)"
  shows "\<exists>r\<in>set rows. x = select_opportunity p1 p2 p3 r \<and> where_opportunity p1 p2 p3 p4 now r"
proof -
  from assms obtain r where r: "r \<in> set (take 50 (ranked_opportunities p1 p2 p3 p4 now rows))"
    and x: "x = select_opportunity p1 p2 p3 r"
    by (auto simp add: opportunities_sql_def)
  from r have "r \<in> set (ranked_opportunities p1 p2 p3 p4 now rows)" by (rule in_set_takeD)
  then have "r \<in> set rows \<and> where_opportunity p1 p2 p3 p4 now r" by (simp add: ranked_set)
  with x show ?thesis by blast
qed

lemma opportunities_sql_numeric_bound:
  assumes "x \<in> set (opportunities_sql p1 p2 p3 (Num m) now rows)"
  shows "\<exists>r\<in>set rows. x = select_opportunity p1 p2 p3 r \<and> now < expiry r \<and>
           (\<exists>d. r_distance x = Some d \<and> d < m)"
proof -
  from opportunities_sql_sound[OF assms] obtain r where r: "r \<in> set rows"
    and x: "x = select_opportunity p1 p2 p3 r" and w: "where_opportunity p1 p2 p3 (Num m) now r"
    by blast
  from w have "now < expiry r" and "\<exists>d. distance p1 p2 p3 r = Some d \<and> d < m"
    by (auto simp add: where_opportunity_def sql_lt_def split: option.splits)
  with r x show ?thesis by (auto simp add: select_opportunity_def)
qed


lemma opportunities_sql_nonpositive:
  assumes "m \<le> 0"
  shows "opportunities_sql p1 p2 p3 (Num m) now rows = []"
proof -
  have "\<not> where_opportunity p1 p2 p3 (Num m) now r" for r
  proof
    assume "where_opportunity p1 p2 p3 (Num m) now r"
    then obtain d where "distance p1 p2 p3 r = Some d" "d < m"
      by (auto simp add: where_opportunity_def sql_lt_def split: option.splits)
    with distance_nonneg[of p1 p2 p3 r d] assms show False by simp
  qed
  then show ?thesis by (simp add: opportunities_sql_def ranked_opportunities_def)
qed

lemma opportunities_sql_null:
  assumes "numeric_value p1 = None \<or> numeric_value p2 = None"
  shows "opportunities_sql p1 p2 p3 p4 now rows = []"
  using assms
  by (simp add: opportunities_sql_def ranked_opportunities_def where_opportunity_def
      distance_null sql_lt_def)

text \<open>
  With the default bound (no \<^verbatim>\<open>max_distance\<close> in the request) the comparison is numeric:
  at most 50 rows, each within 100 km and not expired.
\<close>

lemma opportunities_default_bound:
  assumes "opportunities db = Inr rows" and "q ''max_distance'' = None"
  shows "\<exists>res. api_opportunities db now q = Inr res \<and> length res \<le> 50 \<and>
           list_all (\<lambda>x. \<exists>r\<in>set rows. r_id x = o_id r \<and> now < expiry r \<and>
                        (\<exists>d. r_distance x = Some d \<and> d < 100)) res"
proof -
  let ?res = "opportunities_sql (bind_param (q ''lat'')) (bind_param (q ''lng''))
                (bind_param (q ''lat'')) (Num 100) now rows"
  have a: "api_opportunities db now q = Inr ?res"
    using assms by (simp add: api_opportunities_def max_distance_param_def)
  have "\<exists>r\<in>set rows. r_id x = o_id r \<and> now < expiry r \<and> (\<exists>d. r_distance x = Some d \<and> d < 100)"
    if "x \<in> set ?res" for x
    using opportunities_sql_numeric_bound[OF that] by (auto simp add: select_opportunity_def)
  then have "list_all (\<lambda>x. \<exists>r\<in>set rows. r_id x = o_id r \<and> now < expiry r \<and>
                        (\<exists>d. r_distance x = Some d \<and> d < 100)) ?res"
    by (simp add: list_all_iff)
  with a show ?thesis by (simp add: opportunities_sql_length)
qed

subsection \<open>Concrete distances and dates\<close>

lemma distance_quarter_circle:
  "distance (Text ''0'') (Text ''0'') (Text ''0'')
     \<lparr>o_id = 1, o_origin = ''A'', o_destination = ''B'', o_payload = ''P'', o_revenue = 500,
      expiry = 100, origin_lat = 0, origin_lng = 90\<rparr> = Some (6371 * pi / 2)"
  by (simp add: distance_def sql_defs num_defs)


lemma distance_same_point:
  "distance (Text ''0'') (Text ''0'') (Text ''0'')
     \<lparr>o_id = 2, o_origin = ''C'', o_destination = ''D'', o_payload = ''Q'', o_revenue = 500,
      expiry = 100, origin_lat = 0, origin_lng = 0\<rparr> = Some 0"
  by (simp add: distance_def sql_defs num_defs)



lemma unit_fortnight: "modifier_unit ''fortnight'' = None"
  by code_simp






lemma cutoff_hour: "datetime_now_minus_one 1711886400 ''hour'' = Some 1711882800"
  by code_simp

lemma label_mar3: "strftime_Ym 1711884600 = ''2024-03''"
  by code_simp



subsection \<open>Trucks and revenue queries\<close>

lemma trucks_sql_sound:
  "x \<in> set (trucks_sql now rows) \<Longrightarrow> now - 300 < tr_timestamp x"
  by (auto simp add: trucks_sql_def select_truck_def)

lemma trucks_sql_sorted:
  "sorted_wrt (\<lambda>a b. tr_timestamp b \<le> tr_timestamp a) (trucks_sql now rows)"
proof -
  have "sorted (map (\<lambda>r. - last_updated r)
          (sort_key (\<lambda>r. - last_updated r) (filter (\<lambda>r. now - 300 < last_updated r) rows)))"
    by simp
  then show ?thesis
    by (simp add: trucks_sql_def sorted_wrt_map select_truck_def)
qed







lemma revenue_window_null:
  "datetime_now_minus_one now p = None \<Longrightarrow> revenue_sql sqlite_sum now p rows = []"
  by (simp add: revenue_sql_def revenue_window_def)


section \<open>The claims\<close>

text \<open>
  C1. A request that names its own bound does not get it applied: \<^verbatim>\<open>max_distance=1\<close> is
  bound as the text \<^verbatim>\<open>'1'\<close>, the computed distance is a number, and SQLite orders every
  number before every text. With the query point at (0, 0) and \<^verbatim>\<open>max_distance=1\<close>, the
  opportunity whose origin is (0, 90), a quarter of a great circle away, is returned with
  its distance \<open>6371 * pi / 2\<close> km, which is not below 1. (Expiry, the cap of 50 and
  the cap after ranking hold: \<open>opportunities_sql_sound\<close>, \<open>opportunities_sql_length\<close>,
  and the definition of \<open>opportunities_sql\<close>.)
\<close>

theorem opportunities_text_max_distance_not_applied:
  "api_opportunities
     \<lparr>trucks = Inr [],
      opportunities = Inr [\<lparr>o_id = 1, o_origin = ''A'', o_destination = ''B'', o_payload = ''P'',
        o_revenue = 500, expiry = 100, origin_lat = 0, origin_lng = 90\<rparr>],
      shipments = Inr []\<rparr> 0
     [''lat'' \<mapsto> ''0'', ''lng'' \<mapsto> ''0'', ''max_distance'' \<mapsto> ''1'']
   = Inr [\<lparr>r_id = 1, r_origin = ''A'', r_destination = ''B'', r_payload = ''P'',
           r_revenue = 500, r_distance = Some (6371 * pi / 2)\<rparr>] \<and>
   numeric_text ''1'' = Some 1 \<and> (1::real) < 6371 * pi / 2"
proof -
  have "(1::real) < 6371 * pi / 2" using pi_ge_two by simp
  then show ?thesis
    by (simp add: handler_defs distance_quarter_circle num_defs)
qed




text \<open>
  C4, as the handler has it. A request without \<^verbatim>\<open>lat\<close> or without \<^verbatim>\<open>lng\<close> is not
  rejected: the query runs with NULL for the coordinate, and the answer is the store's
  error if the query fails and the empty sequence otherwise.
\<close>

theorem opportunities_missing_coordinate_not_rejected:
  assumes "q ''lat'' = None \<or> q ''lng'' = None"
  shows "api_opportunities db now q =
           (case opportunities db of
              Inl msg \<Rightarrow> Inl (StoreUnavailable msg)
            | Inr rows \<Rightarrow> Inr [])"
proof -
  have "numeric_value (bind_param (q ''lat'')) = None \<or> numeric_value (bind_param (q ''lng'')) = None"
    using assms by (auto simp add: bind_param_def numeric_value_def)
  then show ?thesis by (simp add: api_opportunities_def opportunities_sql_null split: sum.splits)
qed

theorem opportunities_missing_coordinate_not_rejected_witness:
  "[''lat'' \<mapsto> ''0''] ''lng'' = None \<and>
   api_opportunities \<lparr>trucks = Inr [], opportunities = Inl ''no such column: origin_lat'',
      shipments = Inr []\<rparr> 0 [''lat'' \<mapsto> ''0'']
   = Inl (StoreUnavailable ''no such column: origin_lat'')"
proof -
  let ?db = "\<lparr>trucks = Inr [], opportunities = Inl ''no such column: origin_lat'',
      shipments = Inr []\<rparr>"
  have h0: "[''lat'' \<mapsto> ''0''] ''lng'' = None" by simp
  then have h: "[''lat'' \<mapsto> ''0''] ''lat'' = None \<or> [''lat'' \<mapsto> ''0''] ''lng'' = None" ..
  have "api_opportunities ?db 0 [''lat'' \<mapsto> ''0''] =
          (case opportunities ?db of Inl msg \<Rightarrow> Inl (StoreUnavailable msg) | Inr rows \<Rightarrow> Inr [])"
    by (rule opportunities_missing_coordinate_not_rejected[OF h])
  then have "api_opportunities ?db 0 [''lat'' \<mapsto> ''0''] =
          Inl (StoreUnavailable ''no such column: origin_lat'')" by simp
  with h0 show ?thesis by (intro conjI)
qed

text \<open>
  C4 as stated fails: without \<^verbatim>\<open>lat\<close> the operation succeeds, with no rows.
\<close>

theorem opportunities_missing_lat_succeeds:
  "api_opportunities
     \<lparr>trucks = Inr [],
      opportunities = Inr [\<lparr>o_id = 1, o_origin = ''A'', o_destination = ''B'', o_payload = ''P'',
        o_revenue = 500, expiry = 100, origin_lat = 0, origin_lng = 0\<rparr>],
      shipments = Inr []\<rparr> 0
     [''lng'' \<mapsto> ''0''] = Inr []"
  by (simp add: handler_defs distance_def sql_defs)

text \<open>
  C5, as the handler has it. A value of \<^verbatim>\<open>period\<close> other than \<^verbatim>\<open>day\<close>, \<^verbatim>\<open>week\<close>, \<^verbatim>\<open>month\<close>
  and \<^verbatim>\<open>year\<close> is not rejected and the store is queried all the same: the answer is never
  \<open>InvalidArgument\<close>, it is the store's error when the query fails, and when the store
  answers and the value is not one of SQLite's interval names the bound of the window
  is NULL and the answer is the empty sequence.
\<close>

theorem revenue_period_not_validated:
  assumes "period_param q \<notin> {''day'', ''week'', ''month'', ''year''}"
  shows "api_analytics_revenue sqlite_sum db now q \<noteq> Inl InvalidArgument \<and>
         (\<forall>msg. shipments db = Inl msg \<longrightarrow>
            api_analytics_revenue sqlite_sum db now q = Inl (StoreUnavailable msg)) \<and>
         (\<forall>rows. shipments db = Inr rows \<longrightarrow> modifier_unit (period_param q) = None \<longrightarrow>
            api_analytics_revenue sqlite_sum db now q = Inr [])"
proof -
  have "datetime_now_minus_one now (period_param q) = None"
    if "modifier_unit (period_param q) = None"
    using that by (simp add: datetime_now_minus_one_def)
  then show ?thesis
    by (auto simp add: api_analytics_revenue_def revenue_window_null split: sum.splits)
qed

theorem revenue_period_not_validated_witness:
  "period_param [''period'' \<mapsto> ''fortnight''] \<notin> {''day'', ''week'', ''month'', ''year''} \<and>
   modifier_unit (period_param [''period'' \<mapsto> ''fortnight'']) = None \<and>
   api_analytics_revenue sum_list
     \<lparr>trucks = Inr [], opportunities = Inr [],
      shipments = Inr [\<lparr>s_timestamp = 1711800000, s_revenue = 250\<rparr>]\<rparr>
     1711886400 [''period'' \<mapsto> ''fortnight'']
   = Inr [] \<and>
   api_analytics_revenue sum_list
     \<lparr>trucks = Inr [], opportunities = Inr [], shipments = Inl ''no such table: shipments''\<rparr>
     1711886400 [''period'' \<mapsto> ''fortnight'']
   = Inl (StoreUnavailable ''no such table: shipments'')"
proof -
  let ?rows = "[\<lparr>s_timestamp = 1711800000, s_revenue = 250\<rparr>]"
  let ?db = "\<lparr>trucks = Inr [], opportunities = Inr [], shipments = Inr ?rows\<rparr>"
  let ?down = "\<lparr>trucks = Inr [], opportunities = Inr [],
                shipments = Inl ''no such table: shipments''\<rparr>"
  let ?q = "[''period'' \<mapsto> ''fortnight'']"
  have p: "period_param ?q = ''fortnight''" by (simp add: period_param_def)
  have h: "period_param ?q \<notin> {''day'', ''week'', ''month'', ''year''}"
    unfolding p by simp
  have u: "modifier_unit (period_param ?q) = None"
    unfolding p by (rule unit_fortnight)
  have s1: "shipments ?db = Inr ?rows" by simp
  have s2: "shipments ?down = Inl ''no such table: shipments''" by simp
  from revenue_period_not_validated[OF h, of sum_list ?db 1711886400] s1 u
  have a: "api_analytics_revenue sum_list ?db 1711886400 ?q = Inr []" by blast
  from revenue_period_not_validated[OF h, of sum_list ?down 1711886400] s2
  have b: "api_analytics_revenue sum_list ?down 1711886400 ?q =
             Inl (StoreUnavailable ''no such table: shipments'')" by blast
  from h u a b show ?thesis by (intro conjI)
qed

text \<open>
  C5 as stated fails: \<^verbatim>\<open>period=hour\<close> is not one of the four values, yet it goes to the
  store and succeeds, with the bucket of the shipment of the last hour.
\<close>

theorem revenue_unrecognized_period_succeeds:
  "api_analytics_revenue sum_list
     \<lparr>trucks = Inr [], opportunities = Inr [],
      shipments = Inr [\<lparr>s_timestamp = 1711800000, s_revenue = 250\<rparr>,
                       \<lparr>s_timestamp = 1711884600, s_revenue = 75\<rparr>]\<rparr>
     1711886400 [''period'' \<mapsto> ''hour'']
   = Inr [\<lparr>timeframe = ''2024-03'', total = 75, b_shipments = 1\<rparr>]"
  by (simp add: api_analytics_revenue_def period_param_def revenue_sql_def revenue_window_def
      revenue_bucket_def revenue_group_def cutoff_hour label_mar3)

text \<open>
  C6, as the handler has it. There is no window parameter: the request is not read, the
  window is five minutes, every returned position was updated less than 300 seconds
  before the clock, and the positions are ordered by time of update, latest first.
\<close>

theorem trucks_fixed_five_minute_window:
  assumes "trucks db = Inr rows"
  shows "api_gps_trucks db now q = Inr (trucks_sql now rows) \<and>
         api_gps_trucks db now q = api_gps_trucks db now q' \<and>
         list_all (\<lambda>x. now - 300 < tr_timestamp x) (trucks_sql now rows) \<and>
         sorted_wrt (\<lambda>a b. tr_timestamp b \<le> tr_timestamp a) (trucks_sql now rows)"
  using assms trucks_sql_sorted[of now rows]
  by (simp add: api_gps_trucks_def list_all_iff trucks_sql_sound)

theorem trucks_fixed_five_minute_window_witness:
  "api_gps_trucks
     \<lparr>trucks = Inr [\<lparr>t_id = 1, t_license_plate = ''AB-123'', current_lat = 40, current_lng = - 73,
                      last_updated = 400\<rparr>,
                    \<lparr>t_id = 2, t_license_plate = ''CD-456'', current_lat = 41, current_lng = - 74,
                      last_updated = 900\<rparr>,
                    \<lparr>t_id = 3, t_license_plate = ''EF-789'', current_lat = 42, current_lng = - 75,
                      last_updated = 820\<rparr>],
      opportunities = Inr [], shipments = Inr []\<rparr> 1000 Map.empty
   = Inr [\<lparr>tr_id = 2, tr_license_plate = ''CD-456'', tr_lat = 41, tr_lng = - 74, tr_timestamp = 900\<rparr>,
          \<lparr>tr_id = 3, tr_license_plate = ''EF-789'', tr_lat = 42, tr_lng = - 75, tr_timestamp = 820\<rparr>]"
proof -
  let ?rows = "[\<lparr>t_id = 1, t_license_plate = ''AB-123'', current_lat = 40, current_lng = - 73,
                      last_updated = 400\<rparr>,
                    \<lparr>t_id = 2, t_license_plate = ''CD-456'', current_lat = 41, current_lng = - 74,
                      last_updated = 900\<rparr>,
                    \<lparr>t_id = 3, t_license_plate = ''EF-789'', current_lat = 42, current_lng = - 75,
                      last_updated = 820\<rparr>]"
  let ?db = "\<lparr>trucks = Inr ?rows, opportunities = Inr [], shipments = Inr []\<rparr>"
  have h: "trucks ?db = Inr ?rows" by simp
  have "api_gps_trucks ?db 1000 Map.empty = Inr (trucks_sql 1000 ?rows)"
    using trucks_fixed_five_minute_window[OF h, of 1000 Map.empty Map.empty] by (rule conjunct1)
  then show ?thesis by (simp add: trucks_sql_def select_truck_def)
qed

text \<open>
  C6 as stated fails: with \<^verbatim>\<open>windowMinutes=1\<close> a position updated three minutes ago is
  returned.
\<close>

theorem trucks_window_parameter_ignored:
  "api_gps_trucks
     \<lparr>trucks = Inr [\<lparr>t_id = 1, t_license_plate = ''AB-123'', current_lat = 40, current_lng = - 73,
                      last_updated = 820\<rparr>],
      opportunities = Inr [], shipments = Inr []\<rparr> 1000 [''windowMinutes'' \<mapsto> ''1'']
   = Inr [\<lparr>tr_id = 1, tr_license_plate = ''AB-123'', tr_lat = 40, tr_lng = - 73,
           tr_timestamp = 820\<rparr>] \<and>
   \<not> (1000 - 1 * 60 < (820::int))"
  by (simp add: api_gps_trucks_def trucks_sql_def select_truck_def)




text \<open>
  C9, as the handler has it. A request whose \<^verbatim>\<open>lat\<close> or \<^verbatim>\<open>lng\<close> is missing or is not a
  number is not rejected for it: the distance of every row is NULL, so the answer is the
  empty sequence when the store answers, and the store's error when the query fails.
\<close>

theorem opportunities_missing_or_non_numeric_empty:
  assumes "missing_or_non_numeric (q ''lat'') \<or> missing_or_non_numeric (q ''lng'')"
  shows "api_opportunities db now q =
           (case opportunities db of
              Inl msg \<Rightarrow> Inl (StoreUnavailable msg)
            | Inr rows \<Rightarrow> Inr [])"
proof -
  have "numeric_value (bind_param (q ''lat'')) = None \<or> numeric_value (bind_param (q ''lng'')) = None"
    using assms
    by (auto simp add: missing_or_non_numeric_def bind_param_def numeric_value_def
        split: option.splits)
  then show ?thesis
    by (simp add: api_opportunities_def opportunities_sql_null split: sum.splits)
qed

theorem opportunities_missing_or_non_numeric_empty_witness:
  "missing_or_non_numeric ([''lat'' \<mapsto> ''abc'', ''lng'' \<mapsto> ''0''] ''lat'') \<and>
   api_opportunities
     \<lparr>trucks = Inr [],
      opportunities = Inr [\<lparr>o_id = 1, o_origin = ''A'', o_destination = ''B'', o_payload = ''P'',
        o_revenue = 500, expiry = 100, origin_lat = 0, origin_lng = 0\<rparr>],
      shipments = Inr []\<rparr> 0
     [''lat'' \<mapsto> ''abc'', ''lng'' \<mapsto> ''0''] = Inr []"
proof -
  let ?q = "[''lat'' \<mapsto> ''abc'', ''lng'' \<mapsto> ''0'']"
  let ?rows = "[\<lparr>o_id = 1, o_origin = ''A'', o_destination = ''B'', o_payload = ''P'',
        o_revenue = 500, expiry = 100, origin_lat = 0, origin_lng = 0\<rparr>]"
  let ?db = "\<lparr>trucks = Inr [], opportunities = Inr ?rows, shipments = Inr []\<rparr>"
  have h2: "missing_or_non_numeric (?q ''lat'')"
    by (simp add: missing_or_non_numeric_def c_string_def num_defs)
  then have h3: "missing_or_non_numeric (?q ''lat'') \<or> missing_or_non_numeric (?q ''lng'')" ..
  have "api_opportunities ?db 0 ?q =
          (case opportunities ?db of Inl msg \<Rightarrow> Inl (StoreUnavailable msg) | Inr rows \<Rightarrow> Inr [])"
    by (rule opportunities_missing_or_non_numeric_empty[OF h3])
  then have "api_opportunities ?db 0 ?q = Inr []" by simp
  with h2 show ?thesis by (intro conjI)
qed

text \<open>
  C9 as stated fails: with \<^verbatim>\<open>lat=abc\<close>, on a database whose \<^verbatim>\<open>opportunities\<close> table is the
  one the bootstrap creates, the query cannot be prepared and the caller gets the
  store's error.
\<close>

theorem opportunities_non_numeric_store_error:
  "api_opportunities
     \<lparr>trucks = Inr [], opportunities = Inl ''no such column: origin_lat'', shipments = Inr []\<rparr>
     0 [''lat'' \<mapsto> ''abc'', ''lng'' \<mapsto> ''0'']
   = Inl (StoreUnavailable ''no such column: origin_lat'')"
  by (simp add: api_opportunities_def)

text \<open>
  C10. A bound of zero or less that the request names is not applied either: with
  \<^verbatim>\<open>max_distance=-1\<close> the opportunity at the query point is returned, at distance 0.
  (Bound as a number, such a bound would keep no row: \<open>opportunities_sql_nonpositive\<close>.)
\<close>

theorem opportunities_negative_max_distance_returns_rows:
  "api_opportunities
     \<lparr>trucks = Inr [],
      opportunities = Inr [\<lparr>o_id = 2, o_origin = ''C'', o_destination = ''D'', o_payload = ''Q'',
        o_revenue = 500, expiry = 100, origin_lat = 0, origin_lng = 0\<rparr>],
      shipments = Inr []\<rparr> 0
     [''lat'' \<mapsto> ''0'', ''lng'' \<mapsto> ''0'', ''max_distance'' \<mapsto> ''-1'']
   = Inr [\<lparr>r_id = 2, r_origin = ''C'', r_destination = ''D'', r_payload = ''Q'',
           r_revenue = 500, r_distance = Some 0\<rparr>] \<and>
   numeric_text ''-1'' = Some (- 1)"
  by (simp add: handler_defs distance_same_point num_defs)

end
